theory Spec2Isabelle
  imports Complex_Main
begin

section \<open>JavaScript values\<close>

text \<open>
  A JavaScript number is an IEEE-754 double: a finite value, one of the two infinities,
  or NaN. A finite double is written \<open>Fin r\<close> with \<open>r\<close> the real it denotes; the two
  zeros are both \<open>Fin 0\<close>. Comparison and truthiness of doubles involve no rounding and
  are defined here. Subtraction, multiplication and division round, overflow and
  propagate NaN as the standard says: they are not defined here but taken from the
  runtime (below), as the host computes them.
\<close>

datatype jsnum = Fin real | PInf | NInf | NaN

fun js_gt :: "jsnum \<Rightarrow> jsnum \<Rightarrow> bool" where
  "js_gt (Fin a) (Fin b) = (b < a)"
| "js_gt NaN _ = False"
| "js_gt _ NaN = False"
| "js_gt PInf PInf = False"
| "js_gt PInf _ = True"
| "js_gt NInf _ = False"
| "js_gt (Fin a) NInf = True"
| "js_gt (Fin a) PInf = False"

text \<open>Truthiness of a number: \<open>0\<close> and NaN are falsy.\<close>

fun truthy_num :: "jsnum \<Rightarrow> bool" where
  "truthy_num (Fin a) = (a \<noteq> 0)"
| "truthy_num NaN = False"
| "truthy_num PInf = True"
| "truthy_num NInf = True"

text \<open>
  The scalar values a decoded JSON array can hold, and \<open>undefined\<close>, which reading an
  array beyond its end gives. Equality of these values is the key equality of a
  JavaScript \<open>Map\<close> (NaN equals NaN there, and the two zeros are one key).
\<close>

datatype jsval = JUndef | JNull | JBool bool | JNum jsnum | JStr string

text \<open>A candle of the exchange's kline endpoint: an array of scalar fields.\<close>

type_synonym candle = "jsval list"

definition idx :: "candle \<Rightarrow> nat \<Rightarrow> jsval" where
  \<comment> \<open>\<open>k[i]\<close>: \<open>undefined\<close> beyond the end of the array\<close>
  "idx k i = (if i < length k then k ! i else JUndef)"

text \<open>An object of the ticker endpoint: a property that is absent reads as \<open>undefined\<close>.\<close>

type_synonym jsobj = "string \<rightharpoonup> jsval"

definition get_prop :: "jsobj \<Rightarrow> string \<Rightarrow> jsval" where
  "get_prop obj name = (case obj name of None \<Rightarrow> JUndef | Some v \<Rightarrow> v)"

text \<open>
  The builtins of the host that the service calls. \<open>parseFloat\<close> and the two
  date formatters (\<open>new Date(ts).toLocaleDateString([], {month, day, hour})\<close> and
  \<open>new Date(ts).toLocaleTimeString([], {hour, minute})\<close>) are taken as they are
  found, and so are the three arithmetic operators on doubles the service uses:
  \<open>num_sub\<close> is \<open>-\<close>, \<open>num_mul\<close> is \<open>*\<close>, \<open>num_div\<close> is \<open>/\<close>.
\<close>

record runtime =
  parseFloat :: "jsval \<Rightarrow> jsnum"
  toLocaleDateString :: "jsval \<Rightarrow> string"
  toLocaleTimeString :: "jsval \<Rightarrow> string"
  num_sub :: "jsnum \<Rightarrow> jsnum \<Rightarrow> jsnum"
  num_mul :: "jsnum \<Rightarrow> jsnum \<Rightarrow> jsnum"
  num_div :: "jsnum \<Rightarrow> jsnum \<Rightarrow> jsnum"

section \<open>The network\<close>

type_synonym url = string

text \<open>
  What \<open>fetch(url)\<close> followed by \<open>res.json()\<close> can do: the request is rejected,
  or it answers with a status (\<open>res.ok\<close>) and a body that is not JSON, is the
  JSON \<open>null\<close>, or decodes to a payload of the endpoint's type: a list of candles
  for the kline endpoint, an object for the ticker endpoint. A body of another shape
  than the exchange documents is outside the model. \<open>safeFetch\<close> catches the
  rejection, the error it throws itself on a status that is not ok, and the failure to
  decode, and returns \<open>null\<close> for each; \<open>console.warn\<close> is not modelled.
\<close>

datatype 'a body = BadJson | JsonNull | Json 'a

datatype 'a response = NetworkError | Http bool "'a body"

type_synonym 'a network = "url \<Rightarrow> 'a response"

definition safeFetch :: "'a network \<Rightarrow> url \<Rightarrow> 'a option \<times> url list" where
  \<comment> \<open>the result (\<open>None\<close> is \<open>null\<close>) and the requests issued\<close>
  "safeFetch net u =
     ((case net u of
         NetworkError \<Rightarrow> None
       | Http ok b \<Rightarrow>
           (if \<not> ok then None
            else (case b of BadJson \<Rightarrow> None | JsonNull \<Rightarrow> None | Json d \<Rightarrow> Some d))),
      [u])"

definition BINANCE_API :: string where
  "BINANCE_API = ''https://api.binance.com/api/v3''"

text \<open>A number interpolated into a template string: the decimal digits of a natural.\<close>

fun show_nat :: "nat \<Rightarrow> string" where
  "show_nat n =
     (if n < 10 then [''0123456789'' ! n]
      else show_nat (n div 10) @ [''0123456789'' ! (n mod 10)])"

declare show_nat.simps [simp del]

definition klines_url :: "string \<Rightarrow> string \<Rightarrow> nat \<Rightarrow> url" where
  "klines_url symbol itv n =
     BINANCE_API @ ''/klines?symbol='' @ symbol @ ''&interval='' @ itv
       @ ''&limit='' @ show_nat n"

section \<open>fetchHighLow\<close>

record hl_def =
  label :: string
  interval :: string
  limit :: nat

record HighLowData =
  timeframe :: string
  high :: jsnum
  low :: jsnum
  rangePercent :: jsnum

definition definitions :: "hl_def list" where
  "definitions =
     [\<lparr>label = ''1 Gi'' @ [CHR 0xE1, CHR 0xBB, CHR 0x9D], interval = ''1h'', limit = 2\<rparr>,
      \<lparr>label = ''4 Gi'' @ [CHR 0xE1, CHR 0xBB, CHR 0x9D], interval = ''4h'', limit = 2\<rparr>,
      \<lparr>label = ''24 Gi'' @ [CHR 0xE1, CHR 0xBB, CHR 0x9D], interval = ''1d'', limit = 1\<rparr>,
      \<lparr>label = ''7 Ng'' @ [CHR 0xC3, CHR 0xA0] @ ''y'', interval = ''1w'', limit = 1\<rparr>]"

definition hl_url :: "string \<Rightarrow> hl_def \<Rightarrow> url" where
  "hl_url symbol d = klines_url symbol (interval d) (limit d)"

text \<open>
  The symbol is passed explicitly (the source defaults it to \<open>BTCUSDT\<close>).
  The callback and the function are written once over the division operator
  \<open>dv\<close>, so that a theorem can say at which divisors the code evaluates it;
  \<open>fetchHighLow\<close> itself is the instance at the runtime's division.
\<close>

definition hl_entry_with ::
  "(jsnum \<Rightarrow> jsnum \<Rightarrow> jsnum) \<Rightarrow> runtime \<Rightarrow> hl_def \<Rightarrow> candle list option \<Rightarrow> HighLowData" where
  \<comment> \<open>the body of the callback, after the fetch\<close>
  "hl_entry_with dv rt d data =
     (case data of
        None \<Rightarrow> \<lparr>timeframe = label d, high = Fin 0, low = Fin 0, rangePercent = Fin 0\<rparr>
      | Some cs \<Rightarrow>
          if length cs = 0
          then \<lparr>timeframe = label d, high = Fin 0, low = Fin 0, rangePercent = Fin 0\<rparr>
          else
            let candle = cs ! (length cs - 1);
                h = parseFloat rt (idx candle 2);
                l = parseFloat rt (idx candle 3);
                range = (if js_gt l (Fin 0)
                         then num_mul rt (dv (num_sub rt h l) l) (Fin 100)
                         else Fin 0)
            in \<lparr>timeframe = label d, high = h, low = l, rangePercent = range\<rparr>)"

definition hl_bucket_with ::
  "(jsnum \<Rightarrow> jsnum \<Rightarrow> jsnum) \<Rightarrow> runtime \<Rightarrow> candle list network \<Rightarrow> string \<Rightarrow> hl_def
     \<Rightarrow> HighLowData \<times> url list" where
  "hl_bucket_with dv rt net symbol d =
     (let (data, reqs) = safeFetch net (hl_url symbol d)
      in (hl_entry_with dv rt d data, reqs))"

definition fetchHighLow_with ::
  "(jsnum \<Rightarrow> jsnum \<Rightarrow> jsnum) \<Rightarrow> runtime \<Rightarrow> candle list network \<Rightarrow> string
     \<Rightarrow> HighLowData list \<times> url list" where
  \<comment> \<open>\<open>Promise.all\<close> over the four callbacks: the results in the order of the definitions\<close>
  "fetchHighLow_with dv rt net symbol =
     (let rs = map (hl_bucket_with dv rt net symbol) definitions
      in (map fst rs, concat (map snd rs)))"

definition fetchHighLow ::
  "runtime \<Rightarrow> candle list network \<Rightarrow> string \<Rightarrow> HighLowData list \<times> url list" where
  "fetchHighLow rt net symbol = fetchHighLow_with (num_div rt) rt net symbol"

section \<open>The two tickers\<close>

record ticker =
  price :: jsnum
  changePercent :: jsnum

text \<open>
  The object fetchBTCPrice returns has a third property \<open>change24h\<close> when the fetch
  gave data and lacks it otherwise: \<open>None\<close> is the absent property.
\<close>

record btc_ticker = ticker +
  change24h :: "jsnum option"

definition ticker_url :: "string \<Rightarrow> url" where
  "ticker_url symbol = BINANCE_API @ ''/ticker/24hr?symbol='' @ symbol"

definition fetchBTCPrice :: "runtime \<Rightarrow> jsobj network \<Rightarrow> btc_ticker \<times> url list" where
  "fetchBTCPrice rt net =
     (let (data, reqs) = safeFetch net (ticker_url ''BTCUSDT'')
      in (case data of
            None \<Rightarrow> \<lparr>price = Fin 95000, changePercent = Fin 0, change24h = None\<rparr>
          | Some d \<Rightarrow>
              \<lparr>price = parseFloat rt (get_prop d ''lastPrice''),
               changePercent = parseFloat rt (get_prop d ''priceChangePercent''),
               change24h = Some (parseFloat rt (get_prop d ''priceChange''))\<rparr>,
          reqs))"

definition fetchGoldPrice :: "runtime \<Rightarrow> jsobj network \<Rightarrow> ticker \<times> url list" where
  "fetchGoldPrice rt net =
     (let (data, reqs) = safeFetch net (ticker_url ''PAXGUSDT'')
      in (case data of
            None \<Rightarrow> \<lparr>price = Fin 2650, changePercent = Fin 0\<rparr>
          | Some d \<Rightarrow>
              \<lparr>price = parseFloat rt (get_prop d ''lastPrice''),
               changePercent = parseFloat rt (get_prop d ''priceChangePercent'')\<rparr>,
          reqs))"

section \<open>fetchChartData\<close>

text \<open>
  \<open>TimeFrame\<close> is a string enum; at run time the argument is a string, and the
  \<open>switch\<close> has a default branch for every other value.
\<close>

definition TimeFrame_H1 :: string where "TimeFrame_H1 = ''1h''"
definition TimeFrame_H4 :: string where "TimeFrame_H4 = ''4h''"
definition TimeFrame_D1 :: string where "TimeFrame_D1 = ''24h''"
definition TimeFrame_D7 :: string where "TimeFrame_D7 = ''7d''"

definition chart_params :: "string \<Rightarrow> string \<times> nat" where
  \<comment> \<open>the \<open>switch\<close>: the candle interval and the number of candles\<close>
  "chart_params timeFrame =
     (if timeFrame = TimeFrame_H1 then (''1m'', 60)
      else if timeFrame = TimeFrame_H4 then (''5m'', 48)
      else if timeFrame = TimeFrame_D1 then (''15m'', 96)
      else if timeFrame = TimeFrame_D7 then (''2h'', 84)
      else (''1h'', 168))"

record ChartDataPoint =
  time :: string
  timestamp :: jsval
  btc :: jsnum
  xau :: jsnum

definition gold_map :: "runtime \<Rightarrow> candle list \<Rightarrow> (jsval \<rightharpoonup> jsnum)" where
  \<comment> \<open>\<open>goldKlines.forEach(k => goldMap.set(k[0], parseFloat(k[4])))\<close>\<close>
  "gold_map rt goldKlines =
     foldl (\<lambda>m k. m(idx k 0 \<mapsto> parseFloat rt (idx k 4))) Map.empty goldKlines"

definition chart_point ::
  "runtime \<Rightarrow> string \<Rightarrow> candle list \<Rightarrow> (jsval \<rightharpoonup> jsnum) \<Rightarrow> candle \<Rightarrow> ChartDataPoint" where
  \<comment> \<open>the callback of \<open>baseData.map\<close>\<close>
  "chart_point rt timeFrame btcData goldMap k =
     (let ts = idx k 0;
          btcClose = (if length btcData > 0 then parseFloat rt (idx k 4) else Fin 0);
          xauClose = (case goldMap ts of
                        None \<Rightarrow> Fin 2650
                      | Some v \<Rightarrow> if truthy_num v then v else Fin 2650);
          timeLabel = (if timeFrame = TimeFrame_D7 then toLocaleDateString rt ts
                       else toLocaleTimeString rt ts)
      in \<lparr>time = timeLabel, timestamp = ts, btc = btcClose, xau = xauClose\<rparr>)"

definition fetchChartData ::
  "runtime \<Rightarrow> candle list network \<Rightarrow> string \<Rightarrow> ChartDataPoint list \<times> url list" where
  "fetchChartData rt net timeFrame =
     (let (itv, n) = chart_params timeFrame;
          (btcKlines, reqs1) = safeFetch net (klines_url ''BTCUSDT'' itv n);
          (goldKlines, reqs2) = safeFetch net (klines_url ''PAXGUSDT'' itv n)
      in if btcKlines = None \<and> goldKlines = None then ([], reqs1 @ reqs2)
         else
           let btcData = (case btcKlines of None \<Rightarrow> [] | Some d \<Rightarrow> d);
               goldMap = (case goldKlines of None \<Rightarrow> Map.empty | Some g \<Rightarrow> gold_map rt g);
               baseData = (if length btcData > 0 then btcData
                           else (case goldKlines of None \<Rightarrow> [] | Some g \<Rightarrow> g))
           in (map (chart_point rt timeFrame btcData goldMap) baseData, reqs1 @ reqs2))"

section \<open>fetchAIAnalysis\<close>

record AnalysisInput =
  btcPrice :: jsnum
  btcChange :: jsnum
  goldPrice :: jsnum
  goldChange :: jsnum
  fundingRate :: jsnum
  btcVolatility :: "HighLowData list"
  goldVolatility :: "HighLowData list"

text \<open>\<open>s.includes(sub)\<close>: the substring test.\<close>

primrec str_includes :: "string \<Rightarrow> string \<Rightarrow> bool" where
  "str_includes [] sub = (sub = [])"
| "str_includes (c # cs) sub = (take (length sub) (c # cs) = sub \<or> str_includes cs sub)"

text \<open>
  The prompt. The three templates are fixed text around interpolated values; a prompt is
  kept as the template chosen and the values interpolated into it, in the order in which
  the template names them. \<open>formatVol\<close> prints every entry of a volatility list, so the
  list itself is the value; the combined template prints the range of the first entry
  whose timeframe includes \<open>24\<close>, or \<open>undefined\<close> when there is none.
\<close>

datatype prompt =
    BtcPrompt jsnum jsnum jsnum "HighLowData list"
  | GoldPrompt jsnum jsnum "HighLowData list"
  | CombinedPrompt jsnum jsnum jsnum jsnum "jsnum option" "jsnum option"

definition range24 :: "HighLowData list \<Rightarrow> jsnum option" where
  \<comment> \<open>\<open>vol.find(d => d.timeframe.includes('24'))?.rangePercent\<close>\<close>
  "range24 vol = map_option rangePercent (find (\<lambda>d. str_includes (timeframe d) ''24'') vol)"

definition build_prompt :: "AnalysisInput \<Rightarrow> string \<Rightarrow> prompt" where
  "build_prompt marketData mode =
     (if mode = ''btc''
      then BtcPrompt (btcPrice marketData) (btcChange marketData) (fundingRate marketData)
             (btcVolatility marketData)
      else if mode = ''gold''
      then GoldPrompt (goldPrice marketData) (goldChange marketData)
             (goldVolatility marketData)
      else CombinedPrompt (btcPrice marketData) (btcChange marketData)
             (goldPrice marketData) (goldChange marketData)
             (range24 (btcVolatility marketData)) (range24 (goldVolatility marketData)))"

text \<open>
  The text-generation client library is not part of the repository: its constructor and
  its one call are taken as they are found. The constructor may throw; the call either
  rejects or gives a response, of which the code reads \<open>text\<close> (a string or
  \<open>undefined\<close>, here \<open>None\<close>). A call of \<open>generateContent\<close> is the only way the code
  reaches the service, and each one is recorded with its model name and prompt.
\<close>

datatype js_error = ReferenceError | TypeError | SdkError string

record 'c genai =
  newGoogleGenAI :: "string option \<Rightarrow> js_error + 'c"
  generateContent :: "'c \<Rightarrow> string \<Rightarrow> prompt \<Rightarrow> js_error + string option"

type_synonym ai_request = "string \<times> prompt"

text \<open>
  Where the credential comes from, in a browser: the global \<open>process\<close> may be
  missing, it may lack \<open>env\<close>, or \<open>env.API_KEY\<close> is a string or
  \<open>undefined\<close>. Optional chaining reads \<open>undefined\<close> where the plain property
  access throws.
\<close>

datatype host = NoProcess | NoEnv | Env "string option"

definition window_process_env_API_KEY :: "host \<Rightarrow> string option" where
  \<comment> \<open>\<open>(window as any).process?.env?.API_KEY\<close>\<close>
  "window_process_env_API_KEY h = (case h of NoProcess \<Rightarrow> None | NoEnv \<Rightarrow> None | Env k \<Rightarrow> k)"

definition process_env_API_KEY :: "host \<Rightarrow> js_error + string option" where
  \<comment> \<open>\<open>process.env.API_KEY\<close>\<close>
  "process_env_API_KEY h =
     (case h of NoProcess \<Rightarrow> Inl ReferenceError | NoEnv \<Rightarrow> Inl TypeError | Env k \<Rightarrow> Inr k)"

definition not_configured_message :: string where
  "not_configured_message = ''API Key not configured in environment.''"

definition retry_later_message :: string where
  \<comment> \<open>the UTF-8 bytes of the Vietnamese sentence in the \<open>catch\<close> block\<close>
  "retry_later_message =
     ''H'' @ [CHR 0xE1, CHR 0xBB, CHR 0x87] @ '' th'' @ [CHR 0xE1, CHR 0xBB, CHR 0x91]
     @ ''ng AI '' @ [CHR 0xC4, CHR 0x91] @ ''ang b'' @ [CHR 0xE1, CHR 0xBA, CHR 0xAD]
     @ ''n ho'' @ [CHR 0xE1, CHR 0xBA, CHR 0xB7] @ ''c g'' @ [CHR 0xE1, CHR 0xBA, CHR 0xB7]
     @ ''p s'' @ [CHR 0xE1, CHR 0xBB, CHR 0xB1] @ '' c'' @ [CHR 0xE1, CHR 0xBB, CHR 0x91]
     @ '' k'' @ [CHR 0xE1, CHR 0xBA, CHR 0xBF] @ ''t n'' @ [CHR 0xE1, CHR 0xBB, CHR 0x91]
     @ ''i. Vui l'' @ [CHR 0xC3, CHR 0xB2] @ ''ng th'' @ [CHR 0xE1, CHR 0xBB, CHR 0xAD]
     @ '' l'' @ [CHR 0xE1, CHR 0xBA, CHR 0xA1] @ ''i sau.''"

text \<open>
  What follows the construction of the client in both copies of the function: build the
  prompt, call the service, return the response's text.
\<close>

definition ask_model ::
  "'c genai \<Rightarrow> 'c \<Rightarrow> AnalysisInput \<Rightarrow> string
     \<Rightarrow> (js_error + string option) \<times> ai_request list" where
  "ask_model sdk ai marketData mode =
     (let p = build_prompt marketData mode
      in (generateContent sdk ai ''gemini-2.5-flash'' p, [(''gemini-2.5-flash'', p)]))"

text \<open>An async function's promise is fulfilled with a value or rejected with an error.\<close>

datatype 'a outcome = Fulfilled 'a | Rejected js_error

definition catch_block :: "js_error + string option \<Rightarrow> string option outcome" where
  \<comment> \<open>the \<open>try\<close> block's result, or the \<open>catch\<close> block's return\<close>
  "catch_block r =
     (case r of Inl e \<Rightarrow> Fulfilled (Some retry_later_message) | Inr t \<Rightarrow> Fulfilled t)"

text \<open>
  The copy in services/marketService.ts (the one the components import): the \<open>try\<close>
  block reads \<open>process.env.API_KEY\<close> and hands it to the constructor.
\<close>

definition fetchAIAnalysis_try ::
  "host \<Rightarrow> 'c genai \<Rightarrow> AnalysisInput \<Rightarrow> string
     \<Rightarrow> (js_error + string option) \<times> ai_request list" where
  "fetchAIAnalysis_try h sdk marketData mode =
     (case process_env_API_KEY h of
        Inl e \<Rightarrow> (Inl e, [])
      | Inr apiKey \<Rightarrow>
          (case newGoogleGenAI sdk apiKey of
             Inl e \<Rightarrow> (Inl e, [])
           | Inr ai \<Rightarrow> ask_model sdk ai marketData mode))"

definition fetchAIAnalysis ::
  "host \<Rightarrow> 'c genai \<Rightarrow> AnalysisInput \<Rightarrow> string \<Rightarrow> string option outcome \<times> ai_request list" where
  "fetchAIAnalysis h sdk marketData mode =
     (let (r, reqs) = fetchAIAnalysis_try h sdk marketData mode in (catch_block r, reqs))"

text \<open>
  The copy in the single-file build (sections Types, Services, Components merged): the
  \<open>try\<close> block reads the key through optional chaining and returns early when it is
  falsy (\<open>undefined\<close> or the empty string).
\<close>

definition fetchAIAnalysis_merged_try ::
  "host \<Rightarrow> 'c genai \<Rightarrow> AnalysisInput \<Rightarrow> string
     \<Rightarrow> (js_error + string option) \<times> ai_request list" where
  "fetchAIAnalysis_merged_try h sdk marketData mode =
     (let apiKey = window_process_env_API_KEY h
      in if apiKey = None \<or> apiKey = Some [] then (Inr (Some not_configured_message), [])
         else (case newGoogleGenAI sdk apiKey of
                 Inl e \<Rightarrow> (Inl e, [])
               | Inr ai \<Rightarrow> ask_model sdk ai marketData mode))"

definition fetchAIAnalysis_merged ::
  "host \<Rightarrow> 'c genai \<Rightarrow> AnalysisInput \<Rightarrow> string \<Rightarrow> string option outcome \<times> ai_request list" where
  "fetchAIAnalysis_merged h sdk marketData mode =
     (let (r, reqs) = fetchAIAnalysis_merged_try h sdk marketData mode
      in (catch_block r, reqs))"

section \<open>The analysis panel\<close>

text \<open>
  The caller of fetchAIAnalysis: \<open>handleAnalyze\<close> of the AIAnalysisPanel component.
  The panel's state is the text it shows and its busy flag; the handler's promise and
  the state it leaves are returned with the requests issued. The three sentences are the
  UTF-8 bytes of the Vietnamese literals.
\<close>

record panel =
  analysis :: string
  isAnalyzing :: bool

definition panel_not_configured_message :: string where
  "panel_not_configured_message =
     [CHR 0xE2, CHR 0x9A, CHR 0xA0, CHR 0xEF, CHR 0xB8, CHR 0x8F] @ '' L''
     @ [CHR 0xE1, CHR 0xBB, CHR 0x97] @ ''i: Ch'' @ [CHR 0xC6, CHR 0xB0] @ ''a c''
     @ [CHR 0xE1, CHR 0xBA, CHR 0xA5] @ ''u h'' @ [CHR 0xC3, CHR 0xAC]
     @ ''nh API Key cho AI Analyst.''"

definition no_response_message :: string where
  "no_response_message =
     ''Kh'' @ [CHR 0xC3, CHR 0xB4] @ ''ng c'' @ [CHR 0xC3, CHR 0xB3] @ '' ph''
     @ [CHR 0xE1, CHR 0xBA, CHR 0xA3] @ ''n h'' @ [CHR 0xE1, CHR 0xBB, CHR 0x93] @ ''i t''
     @ [CHR 0xE1, CHR 0xBB, CHR 0xAB] @ '' AI.''"

definition connect_error_message :: string where
  "connect_error_message =
     ''L'' @ [CHR 0xE1, CHR 0xBB, CHR 0x97] @ ''i khi k'' @ [CHR 0xE1, CHR 0xBA, CHR 0xBF]
     @ ''t n'' @ [CHR 0xE1, CHR 0xBB, CHR 0x91] @ ''i v'' @ [CHR 0xE1, CHR 0xBB, CHR 0x9B]
     @ ''i chuy'' @ [CHR 0xC3, CHR 0xAA] @ ''n gia AI.''"

definition result_or_default :: "string option \<Rightarrow> string" where
  \<comment> \<open>\<open>result || "..."\<close>: \<open>undefined\<close> and the empty string are falsy\<close>
  "result_or_default result =
     (case result of
        None \<Rightarrow> no_response_message
      | Some t \<Rightarrow> if t = [] then no_response_message else t)"

definition after_request :: "string option outcome \<Rightarrow> panel \<Rightarrow> panel" where
  \<comment> \<open>the \<open>try\<close>, \<open>catch\<close> and \<open>finally\<close> blocks around the awaited call\<close>
  "after_request r st =
     (case r of
        Fulfilled result \<Rightarrow> st\<lparr>analysis := result_or_default result\<rparr>
      | Rejected e \<Rightarrow> st\<lparr>analysis := connect_error_message\<rparr>)\<lparr>isAnalyzing := False\<rparr>"

text \<open>
  The component of the modular build (it imports fetchAIAnalysis from
  services/marketService.ts): the handler reads \<open>process.env.API_KEY\<close> first and,
  when it is falsy, shows its own not-configured sentence and returns without calling
  fetchAIAnalysis. The read is outside the \<open>try\<close> block.
\<close>

definition handleAnalyze ::
  "host \<Rightarrow> 'c genai \<Rightarrow> AnalysisInput \<Rightarrow> string \<Rightarrow> panel
     \<Rightarrow> (unit outcome \<times> panel) \<times> ai_request list" where
  "handleAnalyze h sdk props chartMode st =
     (case process_env_API_KEY h of
        Inl e \<Rightarrow> ((Rejected e, st), [])
      | Inr apiKey \<Rightarrow>
          if apiKey = None \<or> apiKey = Some []
          then ((Fulfilled (), st\<lparr>analysis := panel_not_configured_message\<rparr>), [])
          else
            let st1 = st\<lparr>isAnalyzing := True, analysis := []\<rparr>;
                (r, reqs) = fetchAIAnalysis h sdk props chartMode
            in ((Fulfilled (), after_request r st1), reqs))"

text \<open>
  The component of the single-file build: no check in the handler; the check is in that
  build's fetchAIAnalysis.
\<close>

definition handleAnalyze_merged ::
  "host \<Rightarrow> 'c genai \<Rightarrow> AnalysisInput \<Rightarrow> string \<Rightarrow> panel
     \<Rightarrow> (unit outcome \<times> panel) \<times> ai_request list" where
  "handleAnalyze_merged h sdk props chartMode st =
     (let st1 = st\<lparr>isAnalyzing := True, analysis := []\<rparr>;
          (r, reqs) = fetchAIAnalysis_merged h sdk props chartMode
      in ((Fulfilled (), after_request r st1), reqs))"

text \<open>
  The entry point of the modular build installs \<open>process = {env: {API_KEY: ''}}\<close> when
  \<open>process\<close> is undefined, before anything is rendered.
\<close>

definition index_shim :: "host \<Rightarrow> host" where
  "index_shim h = (case h of NoProcess \<Rightarrow> Env (Some []) | NoEnv \<Rightarrow> NoEnv | Env k \<Rightarrow> Env k)"

section \<open>Sample environments\<close>

text \<open>
  Concrete environments for the examples. The sample \<open>parseFloat\<close> is the builtin
  on numbers and on the few decimal strings the sample candles hold; the sample network
  answers the requests the examples make and refuses every other one. The sample
  arithmetic gives the double result on the operands the examples compute with
  (\<open>150 - 100\<close>, \<open>50 / 100\<close> and \<open>0.5 * 100\<close>, each exact in doubles) and NaN on
  operands no example reaches.
\<close>

definition sample_parseFloat :: "jsval \<Rightarrow> jsnum" where
  "sample_parseFloat v =
     (case v of
        JNum n \<Rightarrow> n
      | JStr s \<Rightarrow>
          (if s = ''0'' then Fin 0 else if s = ''50'' then Fin 50
           else if s = ''100'' then Fin 100 else if s = ''105'' then Fin 105
           else if s = ''110'' then Fin 110 else if s = ''150'' then Fin 150 else NaN)
      | _ \<Rightarrow> NaN)"

definition sample_sub :: "jsnum \<Rightarrow> jsnum \<Rightarrow> jsnum" where
  "sample_sub a b = (if a = Fin 150 \<and> b = Fin 100 then Fin 50 else NaN)"

definition sample_div :: "jsnum \<Rightarrow> jsnum \<Rightarrow> jsnum" where
  "sample_div a b = (if a = Fin 50 \<and> b = Fin 100 then Fin (1 / 2) else NaN)"

definition sample_mul :: "jsnum \<Rightarrow> jsnum \<Rightarrow> jsnum" where
  "sample_mul a b = (if a = Fin (1 / 2) \<and> b = Fin 100 then Fin 50 else NaN)"

definition sample_runtime :: runtime where
  "sample_runtime =
     \<lparr>parseFloat = sample_parseFloat,
      toLocaleDateString = (\<lambda>ts. ''date''),
      toLocaleTimeString = (\<lambda>ts. ''time''),
      num_sub = sample_sub,
      num_mul = sample_mul,
      num_div = sample_div\<rparr>"

definition t0 :: jsval where "t0 = JNum (Fin 1700000000000)"
definition t1 :: jsval where "t1 = JNum (Fin 1700000060000)"

definition flat_candle :: "jsval \<Rightarrow> string \<Rightarrow> candle" where
  \<comment> \<open>open time, then open, high, low and close at one price\<close>
  "flat_candle ts p = [ts, JStr p, JStr p, JStr p, JStr p]"

definition sample_klines :: "candle list network" where
  "sample_klines u =
     (if u = ''https://api.binance.com/api/v3/klines?symbol=BTCUSDT&interval=1h&limit=2''
      then NetworkError
      else if u = ''https://api.binance.com/api/v3/klines?symbol=BTCUSDT&interval=4h&limit=2''
      then Http True (Json [])
      else if u = ''https://api.binance.com/api/v3/klines?symbol=BTCUSDT&interval=1d&limit=1''
      then Http True (Json [[t0, JStr ''105'', JStr ''150'', JStr ''100'', JStr ''105'']])
      else if u = ''https://api.binance.com/api/v3/klines?symbol=BTCUSDT&interval=1w&limit=1''
      then Http True (Json [[t0, JStr ''0'', JStr ''50'', JStr ''0'', JStr ''50'']])
      else if u = ''https://api.binance.com/api/v3/klines?symbol=BTCUSDT&interval=1m&limit=60''
      then Http True (Json [flat_candle t0 ''100'', flat_candle t1 ''110''])
      else if u = ''https://api.binance.com/api/v3/klines?symbol=PAXGUSDT&interval=1m&limit=60''
      then Http True (Json [flat_candle t0 ''50''])
      else if u = ''https://api.binance.com/api/v3/klines?symbol=BTCUSDT&interval=5m&limit=48''
      then Http True (Json [flat_candle t0 ''100''])
      else if u = ''https://api.binance.com/api/v3/klines?symbol=PAXGUSDT&interval=5m&limit=48''
      then Http True (Json [flat_candle t0 ''0''])
      else if u = ''https://api.binance.com/api/v3/klines?symbol=PAXGUSDT&interval=15m&limit=96''
      then Http True (Json [flat_candle t0 ''50'', flat_candle t1 ''50''])
      else Http False BadJson)"

definition sample_tickers :: "jsobj network" where
  "sample_tickers u =
     (if u = ''https://api.binance.com/api/v3/ticker/24hr?symbol=BTCUSDT''
      then NetworkError
      else Http False JsonNull)"

definition sample_input :: AnalysisInput where
  "sample_input =
     \<lparr>btcPrice = Fin 95000, btcChange = Fin 1, goldPrice = Fin 2650, goldChange = Fin 0,
      fundingRate = Fin (1 / 100), btcVolatility = [], goldVolatility = []\<rparr>"

text \<open>
  Three client libraries: one whose constructor refuses a missing or empty key and
  whose call answers with a text, one that accepts any key and whose call is rejected,
  one that accepts any key and whose call resolves with a response that has no text.
\<close>

definition strict_sdk :: "string genai" where
  "strict_sdk =
     \<lparr>newGoogleGenAI =
        (\<lambda>k. case k of
               None \<Rightarrow> Inl (SdkError ''An API Key must be set'')
             | Some s \<Rightarrow> if s = [] then Inl (SdkError ''An API Key must be set'') else Inr s),
      generateContent = (\<lambda>ai m p. Inr (Some ''commentary''))\<rparr>"

definition textless_sdk :: "string option genai" where
  "textless_sdk =
     \<lparr>newGoogleGenAI = (\<lambda>k. Inr k),
      generateContent = (\<lambda>ai m p. Inr None)\<rparr>"

definition idle_panel :: panel where
  "idle_panel = \<lparr>analysis = [], isAnalyzing = False\<rparr>"

definition rejecting_sdk :: "string option genai" where
  "rejecting_sdk =
     \<lparr>newGoogleGenAI = (\<lambda>k. Inr k),
      generateContent = (\<lambda>ai m p. Inl (SdkError ''request failed''))\<rparr>"

section \<open>Properties of fetchHighLow\<close>

lemma length_definitions: "length definitions = 4"
  by (simp add: definitions_def)

lemma fst_hl_bucket_with:
  "fst (hl_bucket_with dv rt net symbol d) =
     hl_entry_with dv rt d (fst (safeFetch net (hl_url symbol d)))"
  by (simp add: hl_bucket_with_def split: prod.splits)

lemma timeframe_hl_entry_with: "timeframe (hl_entry_with dv rt d data) = label d"
  by (simp add: hl_entry_with_def Let_def split: option.splits)

lemma fst_fetchHighLow_with:
  "fst (fetchHighLow_with dv rt net symbol) =
     map (\<lambda>d. hl_entry_with dv rt d (fst (safeFetch net (hl_url symbol d)))) definitions"
  by (simp add: fetchHighLow_with_def Let_def fst_hl_bucket_with)

lemma fst_fetchHighLow:
  "fst (fetchHighLow rt net symbol) =
     map (\<lambda>d. hl_entry_with (num_div rt) rt d (fst (safeFetch net (hl_url symbol d)))) definitions"
  by (simp add: fetchHighLow_def fst_fetchHighLow_with)

lemma nth_fetchHighLow_with:
  "i < length definitions \<Longrightarrow>
   fst (fetchHighLow_with dv rt net symbol) ! i =
     hl_entry_with dv rt (definitions ! i)
       (fst (safeFetch net (hl_url symbol (definitions ! i))))"
  by (simp add: fst_fetchHighLow_with)

lemma hl_entry_with_no_data:
  "data = None \<or> data = Some [] \<Longrightarrow>
   hl_entry_with dv rt d data =
     \<lparr>timeframe = label d, high = Fin 0, low = Fin 0, rangePercent = Fin 0\<rparr>"
  by (auto simp: hl_entry_with_def)

lemma hl_entry_with_data:
  "cs \<noteq> [] \<Longrightarrow>
   hl_entry_with dv rt d (Some cs) =
     \<lparr>timeframe = label d,
      high = parseFloat rt (idx (last cs) 2),
      low = parseFloat rt (idx (last cs) 3),
      rangePercent =
        (if js_gt (parseFloat rt (idx (last cs) 3)) (Fin 0)
         then num_mul rt (dv (num_sub rt (parseFloat rt (idx (last cs) 2))
                                  (parseFloat rt (idx (last cs) 3)))
                         (parseFloat rt (idx (last cs) 3))) (Fin 100)
         else Fin 0)\<rparr>"
  by (simp add: hl_entry_with_def Let_def last_conv_nth)

lemma hl_entry_with_cong_div:
  assumes "\<And>a b. js_gt b (Fin 0) \<Longrightarrow> dv a b = dv' a b"
  shows "hl_entry_with dv rt d data = hl_entry_with dv' rt d data"
  using assms by (simp add: hl_entry_with_def Let_def split: option.splits)

text \<open>The requests and the results of the sample network for three of the buckets.\<close>

lemma show_nat_digit: "n < 10 \<Longrightarrow> show_nat n = [''0123456789'' ! n]"
  by (simp add: show_nat.simps)

lemma hl_urls:
  "hl_url ''BTCUSDT'' (definitions ! 0) =
     ''https://api.binance.com/api/v3/klines?symbol=BTCUSDT&interval=1h&limit=2''"
  "hl_url ''BTCUSDT'' (definitions ! 2) =
     ''https://api.binance.com/api/v3/klines?symbol=BTCUSDT&interval=1d&limit=1''"
  "hl_url ''BTCUSDT'' (definitions ! 3) =
     ''https://api.binance.com/api/v3/klines?symbol=BTCUSDT&interval=1w&limit=1''"
  by (simp_all add: hl_url_def definitions_def klines_url_def BINANCE_API_def show_nat_digit)

lemma sample_bucket_0:
  "fst (safeFetch sample_klines (hl_url ''BTCUSDT'' (definitions ! 0))) = None"
  by (simp add: hl_urls safeFetch_def sample_klines_def)

lemma sample_bucket_2:
  "fst (safeFetch sample_klines (hl_url ''BTCUSDT'' (definitions ! 2))) =
     Some [[t0, JStr ''105'', JStr ''150'', JStr ''100'', JStr ''105'']]"
  by (simp add: hl_urls safeFetch_def sample_klines_def)

lemma sample_bucket_3:
  "fst (safeFetch sample_klines (hl_url ''BTCUSDT'' (definitions ! 3))) =
     Some [[t0, JStr ''0'', JStr ''50'', JStr ''0'', JStr ''50'']]"
  by (simp add: hl_urls safeFetch_def sample_klines_def)

lemma sample_parse:
  "parseFloat sample_runtime (idx [a, b, JStr ''150'', d, e] 2) = Fin 150"
  "parseFloat sample_runtime (idx [a, b, c, JStr ''100'', e] 3) = Fin 100"
  "parseFloat sample_runtime (idx [a, b, c, JStr ''0'', e] 3) = Fin 0"
  by (simp_all add: sample_runtime_def sample_parseFloat_def idx_def)

text \<open>
  C10. Whatever the symbol and whatever each of the four requests does, fetchHighLow
  returns exactly four entries, and their timeframe fields are the labels of the four
  definitions in their order: 1 Gio, 4 Gio, 24 Gio, 7 Ngay (the strings are the UTF-8
  bytes of the Vietnamese labels).
\<close>

theorem fetchHighLow_four_labelled:
  "length (fst (fetchHighLow rt net symbol)) = 4 \<and>
   map timeframe (fst (fetchHighLow rt net symbol)) =
     [''1 Gi'' @ [CHR 0xE1, CHR 0xBB, CHR 0x9D],
      ''4 Gi'' @ [CHR 0xE1, CHR 0xBB, CHR 0x9D],
      ''24 Gi'' @ [CHR 0xE1, CHR 0xBB, CHR 0x9D],
      ''7 Ng'' @ [CHR 0xC3, CHR 0xA0] @ ''y''] \<and>
   map timeframe (fst (fetchHighLow rt net symbol)) = map label definitions"
  by (simp add: fst_fetchHighLow timeframe_hl_entry_with comp_def definitions_def)

text \<open>
  C7. A bucket whose fetch gives no data (\<open>null\<close>) or an empty list gets the entry
  with its label and zeros for high, low and rangePercent; the result still has one
  entry per definition, and every bucket whose fetch gave candles has the high and the low
  parsed from its own last candle.
\<close>

theorem fetchHighLow_failed_bucket:
  assumes "i < length definitions"
    and "fst (safeFetch net (hl_url symbol (definitions ! i))) = None \<or>
         fst (safeFetch net (hl_url symbol (definitions ! i))) = Some []"
  shows "fst (fetchHighLow rt net symbol) ! i =
           \<lparr>timeframe = label (definitions ! i), high = Fin 0, low = Fin 0,
            rangePercent = Fin 0\<rparr> \<and>
         length (fst (fetchHighLow rt net symbol)) = length definitions \<and>
         (\<forall>j cs. j < length definitions \<and>
            fst (safeFetch net (hl_url symbol (definitions ! j))) = Some cs \<and> cs \<noteq> [] \<longrightarrow>
            timeframe (fst (fetchHighLow rt net symbol) ! j) = label (definitions ! j) \<and>
            high (fst (fetchHighLow rt net symbol) ! j) = parseFloat rt (idx (last cs) 2) \<and>
            low (fst (fetchHighLow rt net symbol) ! j) = parseFloat rt (idx (last cs) 3))"
proof (intro conjI allI impI)
  show "fst (fetchHighLow rt net symbol) ! i =
          \<lparr>timeframe = label (definitions ! i), high = Fin 0, low = Fin 0,
           rangePercent = Fin 0\<rparr>"
    using assms by (simp add: fetchHighLow_def nth_fetchHighLow_with hl_entry_with_no_data)
  show "length (fst (fetchHighLow rt net symbol)) = length definitions"
    by (simp add: fst_fetchHighLow)
next
  fix j cs
  assume h: "j < length definitions \<and>
     fst (safeFetch net (hl_url symbol (definitions ! j))) = Some cs \<and> cs \<noteq> []"
  then have e: "fst (fetchHighLow rt net symbol) ! j = hl_entry_with (num_div rt) rt (definitions ! j) (Some cs)"
    by (simp add: fetchHighLow_def nth_fetchHighLow_with)
  from h show "timeframe (fst (fetchHighLow rt net symbol) ! j) = label (definitions ! j)"
    by (simp add: e hl_entry_with_data)
  from h show "high (fst (fetchHighLow rt net symbol) ! j) = parseFloat rt (idx (last cs) 2)"
    by (simp add: e hl_entry_with_data)
  from h show "low (fst (fetchHighLow rt net symbol) ! j) = parseFloat rt (idx (last cs) 3)"
    by (simp add: e hl_entry_with_data)
qed

text \<open>
  On the sample network the first bucket's request fails and the third answers: the
  first entry is the zero entry, the third has high 150 and low 100.
\<close>

theorem fetchHighLow_failed_bucket_witness:
  "0 < length definitions \<and>
   fst (safeFetch sample_klines (hl_url ''BTCUSDT'' (definitions ! 0))) = None \<and>
   fst (fetchHighLow sample_runtime sample_klines ''BTCUSDT'') ! 0 =
     \<lparr>timeframe = ''1 Gi'' @ [CHR 0xE1, CHR 0xBB, CHR 0x9D], high = Fin 0, low = Fin 0,
      rangePercent = Fin 0\<rparr> \<and>
   high (fst (fetchHighLow sample_runtime sample_klines ''BTCUSDT'') ! 2) = Fin 150 \<and>
   low (fst (fetchHighLow sample_runtime sample_klines ''BTCUSDT'') ! 2) = Fin 100"
proof -
  have h1: "0 < length definitions" by (simp add: length_definitions)
  have h3: "2 < length definitions \<and>
        fst (safeFetch sample_klines (hl_url ''BTCUSDT'' (definitions ! 2))) =
          Some [[t0, JStr ''105'', JStr ''150'', JStr ''100'', JStr ''105'']]
        \<and> [[t0, JStr ''105'', JStr ''150'', JStr ''100'', JStr ''105'']] \<noteq> []"
    by (simp add: sample_bucket_2 length_definitions)
  note t = fetchHighLow_failed_bucket [OF h1 disjI1 [OF sample_bucket_0], of sample_runtime]
  from t have a: "fst (fetchHighLow sample_runtime sample_klines ''BTCUSDT'') ! 0 =
     \<lparr>timeframe = ''1 Gi'' @ [CHR 0xE1, CHR 0xBB, CHR 0x9D], high = Fin 0, low = Fin 0,
      rangePercent = Fin 0\<rparr>"
    by (simp add: definitions_def)
  from t h3 have "high (fst (fetchHighLow sample_runtime sample_klines ''BTCUSDT'') ! 2) =
        parseFloat sample_runtime
          (idx (last [[t0, JStr ''105'', JStr ''150'', JStr ''100'', JStr ''105'']]) 2)
      \<and> low (fst (fetchHighLow sample_runtime sample_klines ''BTCUSDT'') ! 2) =
        parseFloat sample_runtime
          (idx (last [[t0, JStr ''105'', JStr ''150'', JStr ''100'', JStr ''105'']]) 3)"
    by blast
  then have c: "high (fst (fetchHighLow sample_runtime sample_klines ''BTCUSDT'') ! 2) = Fin 150 \<and>
      low (fst (fetchHighLow sample_runtime sample_klines ''BTCUSDT'') ! 2) = Fin 100"
    by (simp add: sample_parse)
  from h1 sample_bucket_0 a c show ?thesis by simp
qed

text \<open>
  C2. When the low parsed from a bucket's last candle is greater than 0, the entry's
  rangePercent is \<open>(high - low) / low * 100\<close>, computed with the runtime's double
  subtraction, division and multiplication on the high and low parsed from that candle.
\<close>

theorem fetchHighLow_range_percent:
  assumes "i < length definitions"
    and "fst (safeFetch net (hl_url symbol (definitions ! i))) = Some cs"
    and "cs \<noteq> []"
    and "h = parseFloat rt (idx (last cs) 2)"
    and "l = parseFloat rt (idx (last cs) 3)"
    and "js_gt l (Fin 0)"
  shows "rangePercent (fst (fetchHighLow rt net symbol) ! i) =
           num_mul rt (num_div rt (num_sub rt h l) l) (Fin 100)"
proof -
  have e: "fst (fetchHighLow rt net symbol) ! i =
             hl_entry_with (num_div rt) rt (definitions ! i) (Some cs)"
    using assms(1,2) by (simp add: fetchHighLow_def nth_fetchHighLow_with)
  show ?thesis
    using assms(3-6) by (simp add: e hl_entry_with_data)
qed

text \<open>
  The third sample bucket: high 150, low 100; the difference is 50, the quotient 0.5,
  the range 50 percent.
\<close>

theorem fetchHighLow_range_percent_witness:
  "2 < length definitions \<and>
   fst (safeFetch sample_klines (hl_url ''BTCUSDT'' (definitions ! 2))) =
     Some [[t0, JStr ''105'', JStr ''150'', JStr ''100'', JStr ''105'']] \<and>
   js_gt (Fin 100) (Fin 0) \<and>
   rangePercent (fst (fetchHighLow sample_runtime sample_klines ''BTCUSDT'') ! 2) = Fin 50"
proof -
  have h1: "2 < length definitions" by (simp add: length_definitions)
  have h3: "[[t0, JStr ''105'', JStr ''150'', JStr ''100'', JStr ''105'']] \<noteq> []" by simp
  have h4: "Fin 150 = parseFloat sample_runtime
              (idx (last [[t0, JStr ''105'', JStr ''150'', JStr ''100'', JStr ''105'']]) 2)"
    by (simp add: sample_parse)
  have h5: "Fin 100 = parseFloat sample_runtime
              (idx (last [[t0, JStr ''105'', JStr ''150'', JStr ''100'', JStr ''105'']]) 3)"
    by (simp add: sample_parse)
  have h6: "js_gt (Fin 100) (Fin 0)" by simp
  from fetchHighLow_range_percent [OF h1 sample_bucket_2 h3 h4 h5 h6]
  have "rangePercent (fst (fetchHighLow sample_runtime sample_klines ''BTCUSDT'') ! 2) =
          num_mul sample_runtime
            (num_div sample_runtime (num_sub sample_runtime (Fin 150) (Fin 100)) (Fin 100))
            (Fin 100)" .
  then have "rangePercent (fst (fetchHighLow sample_runtime sample_klines ''BTCUSDT'') ! 2) = Fin 50"
    by (simp add: sample_runtime_def sample_sub_def sample_div_def sample_mul_def)
  with h1 sample_bucket_2 h6 show ?thesis by simp
qed

text \<open>
  C3. When the low parsed from a bucket's last candle is 0, the entry's rangePercent is
  0, whatever the division operator would do. The division is evaluated at divisors
  greater than 0 only: two division operators that agree there give the same
  fetchHighLow, so no division by zero takes part in the result.
\<close>

theorem fetchHighLow_zero_low:
  assumes "i < length definitions"
    and "fst (safeFetch net (hl_url symbol (definitions ! i))) = Some cs"
    and "cs \<noteq> []"
    and "parseFloat rt (idx (last cs) 3) = Fin 0"
  shows "rangePercent (fst (fetchHighLow rt net symbol) ! i) = Fin 0 \<and>
         (\<forall>dv. rangePercent (fst (fetchHighLow_with dv rt net symbol) ! i) = Fin 0) \<and>
         (\<forall>dv dv'. (\<forall>a b. js_gt b (Fin 0) \<longrightarrow> dv a b = dv' a b) \<longrightarrow>
            fetchHighLow_with dv rt net symbol = fetchHighLow_with dv' rt net symbol)"
proof (intro conjI allI impI)
  have z: "rangePercent (fst (fetchHighLow_with dv rt net symbol) ! i) = Fin 0" for dv
    using assms by (simp add: nth_fetchHighLow_with hl_entry_with_data)
  show "rangePercent (fst (fetchHighLow rt net symbol) ! i) = Fin 0"
    by (simp add: fetchHighLow_def z)
  show "rangePercent (fst (fetchHighLow_with dv rt net symbol) ! i) = Fin 0" for dv
    by (rule z)
next
  fix dv dv' :: "jsnum \<Rightarrow> jsnum \<Rightarrow> jsnum"
  assume a: "\<forall>a b. js_gt b (Fin 0) \<longrightarrow> dv a b = dv' a b"
  have "hl_bucket_with dv rt net symbol = hl_bucket_with dv' rt net symbol"
    using a by (auto simp: hl_bucket_with_def fun_eq_iff intro: hl_entry_with_cong_div split: prod.splits)
  then show "fetchHighLow_with dv rt net symbol = fetchHighLow_with dv' rt net symbol"
    by (simp add: fetchHighLow_with_def)
qed

text \<open>
  The fourth sample bucket has low 0: its range is 0, also under a division that
  always gives NaN, and replacing the division by NaN at every divisor that is not
  greater than 0 changes nothing.
\<close>

theorem fetchHighLow_zero_low_witness:
  "3 < length definitions \<and>
   fst (safeFetch sample_klines (hl_url ''BTCUSDT'' (definitions ! 3))) =
     Some [[t0, JStr ''0'', JStr ''50'', JStr ''0'', JStr ''50'']] \<and>
   parseFloat sample_runtime
     (idx (last [[t0, JStr ''0'', JStr ''50'', JStr ''0'', JStr ''50'']]) 3) = Fin 0 \<and>
   rangePercent (fst (fetchHighLow sample_runtime sample_klines ''BTCUSDT'') ! 3) = Fin 0 \<and>
   rangePercent (fst (fetchHighLow_with (\<lambda>a b. NaN) sample_runtime sample_klines ''BTCUSDT'') ! 3)
     = Fin 0 \<and>
   fetchHighLow_with (num_div sample_runtime) sample_runtime sample_klines ''BTCUSDT'' =
     fetchHighLow_with (\<lambda>a b. if js_gt b (Fin 0) then num_div sample_runtime a b else NaN)
       sample_runtime sample_klines ''BTCUSDT''"
proof -
  have h1: "3 < length definitions" by (simp add: length_definitions)
  have h3: "[[t0, JStr ''0'', JStr ''50'', JStr ''0'', JStr ''50'']] \<noteq> []" by simp
  have h4: "parseFloat sample_runtime
     (idx (last [[t0, JStr ''0'', JStr ''50'', JStr ''0'', JStr ''50'']]) 3) = Fin 0"
    by (simp add: sample_parse)
  note t = fetchHighLow_zero_low [OF h1 sample_bucket_3 h3 h4]
  from t
  have a: "rangePercent (fst (fetchHighLow sample_runtime sample_klines ''BTCUSDT'') ! 3) = Fin 0 \<and>
        rangePercent (fst (fetchHighLow_with (\<lambda>a b. NaN) sample_runtime sample_klines ''BTCUSDT'') ! 3)
          = Fin 0"
    by blast
  from t have c:
    "(\<forall>a b. js_gt b (Fin 0) \<longrightarrow> dv a b = dv' a b) \<Longrightarrow>
     fetchHighLow_with dv sample_runtime sample_klines ''BTCUSDT'' =
       fetchHighLow_with dv' sample_runtime sample_klines ''BTCUSDT''" for dv dv'
    by blast
  have b: "fetchHighLow_with (num_div sample_runtime) sample_runtime sample_klines ''BTCUSDT'' =
     fetchHighLow_with (\<lambda>a b. if js_gt b (Fin 0) then num_div sample_runtime a b else NaN)
       sample_runtime sample_klines ''BTCUSDT''"
    by (rule c) simp
  from h1 sample_bucket_3 h4 a b show ?thesis by simp
qed

section \<open>Properties of the tickers\<close>

lemma safeFetch_None_iff:
  "fst (safeFetch net u) = None \<longleftrightarrow>
     net u = NetworkError \<or> (\<exists>b. net u = Http False b) \<or>
     net u = Http True BadJson \<or> net u = Http True JsonNull"
  by (auto simp: safeFetch_def split: response.splits body.splits)

lemma sample_ticker_fetches:
  "fst (safeFetch sample_tickers (ticker_url ''BTCUSDT'')) = None"
  "fst (safeFetch sample_tickers (ticker_url ''PAXGUSDT'')) = None"
  by (simp_all add: safeFetch_def sample_tickers_def ticker_url_def BINANCE_API_def)

text \<open>
  C6. When the ticker fetch gives no data, fetchBTCPrice returns exactly
  \<open>{price: 95000, changePercent: 0}\<close> (no \<open>change24h\<close> property) and fetchGoldPrice
  returns exactly \<open>{price: 2650, changePercent: 0}\<close>; by \<open>safeFetch_None_iff\<close> that
  covers a rejected request, an error status, a body that is not JSON and a \<open>null\<close> body.
\<close>

theorem ticker_fallbacks:
  "(fst (safeFetch net (ticker_url ''BTCUSDT'')) = None \<longrightarrow>
      fst (fetchBTCPrice rt net) =
        \<lparr>price = Fin 95000, changePercent = Fin 0, change24h = None\<rparr>) \<and>
   (fst (safeFetch net (ticker_url ''PAXGUSDT'')) = None \<longrightarrow>
      fst (fetchGoldPrice rt net) = \<lparr>price = Fin 2650, changePercent = Fin 0\<rparr>)"
  by (simp add: fetchBTCPrice_def fetchGoldPrice_def split: prod.splits)

text \<open>
  On the sample network the BTC request is rejected and the gold request answers with an
  error status.
\<close>

theorem ticker_fallbacks_witness:
  "sample_tickers (ticker_url ''BTCUSDT'') = NetworkError \<and>
   fst (safeFetch sample_tickers (ticker_url ''BTCUSDT'')) = None \<and>
   fst (fetchBTCPrice sample_runtime sample_tickers) =
     \<lparr>price = Fin 95000, changePercent = Fin 0, change24h = None\<rparr> \<and>
   sample_tickers (ticker_url ''PAXGUSDT'') = Http False JsonNull \<and>
   fst (safeFetch sample_tickers (ticker_url ''PAXGUSDT'')) = None \<and>
   fst (fetchGoldPrice sample_runtime sample_tickers) =
     \<lparr>price = Fin 2650, changePercent = Fin 0\<rparr>"
proof -
  have n: "sample_tickers (ticker_url ''BTCUSDT'') = NetworkError"
    "sample_tickers (ticker_url ''PAXGUSDT'') = Http False JsonNull"
    by (simp_all add: sample_tickers_def ticker_url_def BINANCE_API_def)
  from ticker_fallbacks [of sample_tickers sample_runtime] sample_ticker_fetches n
  show ?thesis by simp
qed

section \<open>Properties of fetchChartData\<close>

text \<open>
  The Map built from the gold candles holds, for a timestamp, the close of the last
  candle with that timestamp.
\<close>

lemma foldl_gold_map:
  "foldl (\<lambda>m k. m(idx k 0 \<mapsto> parseFloat rt (idx k 4))) m0 gold ts =
     (case find (\<lambda>g. idx g 0 = ts) (rev gold) of
        None \<Rightarrow> m0 ts
      | Some g \<Rightarrow> Some (parseFloat rt (idx g 4)))"
proof (induction gold rule: rev_induct)
  case Nil
  show ?case by simp
next
  case (snoc x xs)
  show ?case
  proof (cases "idx x 0 = ts")
    case True
    then show ?thesis by simp
  next
    case False
    then show ?thesis using snoc.IH by simp
  qed
qed

lemma gold_map_find:
  "gold_map rt gold ts =
     map_option (\<lambda>g. parseFloat rt (idx g 4)) (find (\<lambda>g. idx g 0 = ts) (rev gold))"
  by (simp add: gold_map_def foldl_gold_map split: option.splits)

lemma fst_fetchChartData:
  assumes "chart_params tf = (itv, n)"
    and "fst (safeFetch net (klines_url ''BTCUSDT'' itv n)) = bk"
    and "fst (safeFetch net (klines_url ''PAXGUSDT'' itv n)) = gk"
  shows "fst (fetchChartData rt net tf) =
           map (chart_point rt tf (case bk of None \<Rightarrow> [] | Some d \<Rightarrow> d)
                  (case gk of None \<Rightarrow> Map.empty | Some g \<Rightarrow> gold_map rt g))
               (if (case bk of None \<Rightarrow> [] | Some d \<Rightarrow> d) \<noteq> []
                then (case bk of None \<Rightarrow> [] | Some d \<Rightarrow> d)
                else (case gk of None \<Rightarrow> [] | Some g \<Rightarrow> g))"
  using assms
  by (auto simp: fetchChartData_def Let_def split: prod.splits option.splits)

lemma snd_fetchChartData:
  "chart_params tf = (itv, n) \<Longrightarrow>
   snd (fetchChartData rt net tf) =
     [klines_url ''BTCUSDT'' itv n, klines_url ''PAXGUSDT'' itv n]"
  by (auto simp: fetchChartData_def Let_def safeFetch_def split: prod.splits)

lemma xau_chart_point:
  "xau (chart_point rt tf btcData goldMap k) =
     (case goldMap (idx k 0) of
        None \<Rightarrow> Fin 2650
      | Some v \<Rightarrow> if truthy_num v then v else Fin 2650)"
  by (simp add: chart_point_def Let_def)

lemma timestamp_chart_point: "timestamp (chart_point rt tf btcData goldMap k) = idx k 0"
  by (simp add: chart_point_def Let_def)

lemma show_nat_samples:
  "show_nat 48 = ''48''" "show_nat 60 = ''60''" "show_nat 84 = ''84''"
  "show_nat 96 = ''96''" "show_nat 168 = ''168''"
  by (simp_all add: show_nat.simps)

lemma chart_urls:
  "klines_url ''BTCUSDT'' ''1m'' 60 =
     ''https://api.binance.com/api/v3/klines?symbol=BTCUSDT&interval=1m&limit=60''"
  "klines_url ''PAXGUSDT'' ''1m'' 60 =
     ''https://api.binance.com/api/v3/klines?symbol=PAXGUSDT&interval=1m&limit=60''"
  "klines_url ''BTCUSDT'' ''5m'' 48 =
     ''https://api.binance.com/api/v3/klines?symbol=BTCUSDT&interval=5m&limit=48''"
  "klines_url ''PAXGUSDT'' ''5m'' 48 =
     ''https://api.binance.com/api/v3/klines?symbol=PAXGUSDT&interval=5m&limit=48''"
  "klines_url ''BTCUSDT'' ''15m'' 96 =
     ''https://api.binance.com/api/v3/klines?symbol=BTCUSDT&interval=15m&limit=96''"
  "klines_url ''PAXGUSDT'' ''15m'' 96 =
     ''https://api.binance.com/api/v3/klines?symbol=PAXGUSDT&interval=15m&limit=96''"
  "klines_url ''BTCUSDT'' ''1h'' 168 =
     ''https://api.binance.com/api/v3/klines?symbol=BTCUSDT&interval=1h&limit=168''"
  "klines_url ''PAXGUSDT'' ''1h'' 168 =
     ''https://api.binance.com/api/v3/klines?symbol=PAXGUSDT&interval=1h&limit=168''"
  by (simp_all add: klines_url_def BINANCE_API_def show_nat_samples)

lemma sample_chart_fetches:
  "fst (safeFetch sample_klines (klines_url ''BTCUSDT'' ''1m'' 60)) =
     Some [flat_candle t0 ''100'', flat_candle t1 ''110'']"
  "fst (safeFetch sample_klines (klines_url ''PAXGUSDT'' ''1m'' 60)) =
     Some [flat_candle t0 ''50'']"
  "fst (safeFetch sample_klines (klines_url ''BTCUSDT'' ''5m'' 48)) =
     Some [flat_candle t0 ''100'']"
  "fst (safeFetch sample_klines (klines_url ''PAXGUSDT'' ''5m'' 48)) =
     Some [flat_candle t0 ''0'']"
  "fst (safeFetch sample_klines (klines_url ''BTCUSDT'' ''15m'' 96)) = None"
  "fst (safeFetch sample_klines (klines_url ''PAXGUSDT'' ''15m'' 96)) =
     Some [flat_candle t0 ''50'', flat_candle t1 ''50'']"
  by (simp_all add: chart_urls safeFetch_def sample_klines_def)

lemma sample_chart_params:
  "chart_params TimeFrame_H1 = (''1m'', 60)"
  "chart_params TimeFrame_H4 = (''5m'', 48)"
  "chart_params TimeFrame_D1 = (''15m'', 96)"
  by (simp_all add: chart_params_def TimeFrame_H1_def TimeFrame_H4_def TimeFrame_D1_def
      TimeFrame_D7_def)

lemma sample_chart_H4:
  "fst (fetchChartData sample_runtime sample_klines TimeFrame_H4) =
     [chart_point sample_runtime TimeFrame_H4 [flat_candle t0 ''100'']
        (gold_map sample_runtime [flat_candle t0 ''0'']) (flat_candle t0 ''100'')]"
  by (simp add: fst_fetchChartData [OF sample_chart_params(2) refl refl] sample_chart_fetches)

text \<open>
  C1. With the primary series the BTC candles fetched (none when the fetch gave
  \<open>null\<close>) and the secondary series the gold candles: when the primary series is not
  empty the output has its length, whatever the secondary series is; when the primary
  series is empty and the secondary is not, the output has the secondary's length.
\<close>

theorem fetchChartData_length:
  assumes "chart_params tf = (itv, n)"
    and "primary = (case fst (safeFetch net (klines_url ''BTCUSDT'' itv n)) of
                      None \<Rightarrow> [] | Some d \<Rightarrow> d)"
    and "secondary = (case fst (safeFetch net (klines_url ''PAXGUSDT'' itv n)) of
                        None \<Rightarrow> [] | Some d \<Rightarrow> d)"
  shows "(primary \<noteq> [] \<longrightarrow> length (fst (fetchChartData rt net tf)) = length primary) \<and>
         (primary = [] \<and> secondary \<noteq> [] \<longrightarrow>
            length (fst (fetchChartData rt net tf)) = length secondary)"
  using assms(2,3)
  by (simp add: fst_fetchChartData [OF assms(1) refl refl])

text \<open>
  The sample network: for the 1h timeframe two BTC candles and one gold candle give
  two points; for the 24h timeframe the BTC request fails and two gold candles give two
  points.
\<close>

theorem fetchChartData_length_witness:
  "[flat_candle t0 ''100'', flat_candle t1 ''110''] \<noteq> [] \<and>
   length (fst (fetchChartData sample_runtime sample_klines TimeFrame_H1)) =
     length [flat_candle t0 ''100'', flat_candle t1 ''110''] \<and>
   fst (safeFetch sample_klines (klines_url ''BTCUSDT'' ''15m'' 96)) = None \<and>
   [flat_candle t0 ''50'', flat_candle t1 ''50''] \<noteq> [] \<and>
   length (fst (fetchChartData sample_runtime sample_klines TimeFrame_D1)) =
     length [flat_candle t0 ''50'', flat_candle t1 ''50'']"
proof -
  have a: "length (fst (fetchChartData sample_runtime sample_klines TimeFrame_H1)) =
      length [flat_candle t0 ''100'', flat_candle t1 ''110'']"
    using fetchChartData_length [OF sample_chart_params(1) refl refl,
        of sample_klines sample_runtime]
    by (simp add: sample_chart_fetches)
  have b: "length (fst (fetchChartData sample_runtime sample_klines TimeFrame_D1)) =
      length [flat_candle t0 ''50'', flat_candle t1 ''50'']"
    using fetchChartData_length [OF sample_chart_params(3) refl refl,
        of sample_klines sample_runtime]
    by (simp add: sample_chart_fetches)
  from a b show ?thesis by (simp add: sample_chart_fetches)
qed

text \<open>
  C8. The interval and count are a fixed lookup: H1 gives (1m, 60), H4 (5m, 48),
  D1 (15m, 96), D7 (2h, 84), every other timeframe value (1h, 168); and the two
  requests fetchChartData issues are the kline requests for BTCUSDT and PAXGUSDT with
  that interval and count.
\<close>

theorem fetchChartData_params:
  "chart_params TimeFrame_H1 = (''1m'', 60) \<and>
   chart_params TimeFrame_H4 = (''5m'', 48) \<and>
   chart_params TimeFrame_D1 = (''15m'', 96) \<and>
   chart_params TimeFrame_D7 = (''2h'', 84) \<and>
   (tf \<notin> {TimeFrame_H1, TimeFrame_H4, TimeFrame_D1, TimeFrame_D7} \<longrightarrow>
      chart_params tf = (''1h'', 168)) \<and>
   snd (fetchChartData rt net tf) =
     [klines_url ''BTCUSDT'' (fst (chart_params tf)) (snd (chart_params tf)),
      klines_url ''PAXGUSDT'' (fst (chart_params tf)) (snd (chart_params tf))]"
proof -
  have "snd (fetchChartData rt net tf) =
     [klines_url ''BTCUSDT'' (fst (chart_params tf)) (snd (chart_params tf)),
      klines_url ''PAXGUSDT'' (fst (chart_params tf)) (snd (chart_params tf))]"
    by (rule snd_fetchChartData) simp
  then show ?thesis
    by (simp add: chart_params_def TimeFrame_H1_def TimeFrame_H4_def TimeFrame_D1_def
        TimeFrame_D7_def)
qed

text \<open>A timeframe outside the enum: the requests carry 1h and 168.\<close>

theorem fetchChartData_params_witness:
  "''30d'' \<notin> {TimeFrame_H1, TimeFrame_H4, TimeFrame_D1, TimeFrame_D7} \<and>
   chart_params ''30d'' = (''1h'', 168) \<and>
   snd (fetchChartData sample_runtime sample_klines ''30d'') =
     [''https://api.binance.com/api/v3/klines?symbol=BTCUSDT&interval=1h&limit=168'',
      ''https://api.binance.com/api/v3/klines?symbol=PAXGUSDT&interval=1h&limit=168'']"
proof -
  have h: "''30d'' \<notin> {TimeFrame_H1, TimeFrame_H4, TimeFrame_D1, TimeFrame_D7}"
    by (simp add: TimeFrame_H1_def TimeFrame_H4_def TimeFrame_D1_def TimeFrame_D7_def)
  note t = fetchChartData_params [of "''30d''" sample_runtime sample_klines]
  from t h have p: "chart_params ''30d'' = (''1h'', 168)" by blast
  from t have "snd (fetchChartData sample_runtime sample_klines ''30d'') =
     [klines_url ''BTCUSDT'' (fst (chart_params ''30d'')) (snd (chart_params ''30d'')),
      klines_url ''PAXGUSDT'' (fst (chart_params ''30d'')) (snd (chart_params ''30d''))]"
    by blast
  then have "snd (fetchChartData sample_runtime sample_klines ''30d'') =
     [''https://api.binance.com/api/v3/klines?symbol=BTCUSDT&interval=1h&limit=168'',
      ''https://api.binance.com/api/v3/klines?symbol=PAXGUSDT&interval=1h&limit=168'']"
    by (simp add: p chart_urls)
  with h p show ?thesis by simp
qed

text \<open>
  C9. For a point of the output whose timestamp has a matching gold candle (the Map
  holds the last one with that timestamp) whose parsed close is 0 or NaN, the point's
  gold value is the fallback 2650, not the matched value.
\<close>

theorem fetchChartData_falsy_gold:
  assumes "chart_params tf = (itv, n)"
    and "fst (safeFetch net (klines_url ''PAXGUSDT'' itv n)) = Some gold"
    and "i < length (fst (fetchChartData rt net tf))"
    and "find (\<lambda>g. idx g 0 = timestamp (fst (fetchChartData rt net tf) ! i)) (rev gold) = Some g"
    and "parseFloat rt (idx g 4) = Fin 0 \<or> parseFloat rt (idx g 4) = NaN"
  shows "xau (fst (fetchChartData rt net tf) ! i) = Fin 2650"
proof -
  note e = fst_fetchChartData [OF assms(1) refl assms(2), of rt]
  define base where "base =
    (if (case fst (safeFetch net (klines_url ''BTCUSDT'' itv n)) of None \<Rightarrow> [] | Some d \<Rightarrow> d) \<noteq> []
     then (case fst (safeFetch net (klines_url ''BTCUSDT'' itv n)) of None \<Rightarrow> [] | Some d \<Rightarrow> d)
     else gold)"
  have e': "fst (fetchChartData rt net tf) =
        map (chart_point rt tf
          (case fst (safeFetch net (klines_url ''BTCUSDT'' itv n)) of None \<Rightarrow> [] | Some d \<Rightarrow> d)
          (gold_map rt gold)) base"
    unfolding e base_def by simp
  have i: "i < length base" using assms(3) by (simp add: e')
  have p: "fst (fetchChartData rt net tf) ! i =
        chart_point rt tf
          (case fst (safeFetch net (klines_url ''BTCUSDT'' itv n)) of None \<Rightarrow> [] | Some d \<Rightarrow> d)
          (gold_map rt gold) (base ! i)"
    using i by (simp add: e')
  have "find (\<lambda>g. idx g 0 = idx (base ! i) 0) (rev gold) = Some g"
    using assms(4) by (simp add: p timestamp_chart_point)
  then have "gold_map rt gold (idx (base ! i) 0) = Some (parseFloat rt (idx g 4))"
    by (simp add: gold_map_find)
  then show ?thesis
    using assms(5) by (auto simp: p xau_chart_point)
qed

text \<open>
  The sample network for the 4h timeframe: the gold candle at the BTC candle's
  timestamp closes at 0, and the point's gold value is 2650.
\<close>

theorem fetchChartData_falsy_gold_witness:
  "fst (safeFetch sample_klines (klines_url ''PAXGUSDT'' ''5m'' 48)) =
     Some [flat_candle t0 ''0''] \<and>
   0 < length (fst (fetchChartData sample_runtime sample_klines TimeFrame_H4)) \<and>
   find (\<lambda>g. idx g 0 = timestamp (fst (fetchChartData sample_runtime sample_klines TimeFrame_H4) ! 0))
     (rev [flat_candle t0 ''0'']) = Some (flat_candle t0 ''0'') \<and>
   parseFloat sample_runtime (idx (flat_candle t0 ''0'') 4) = Fin 0 \<and>
   xau (fst (fetchChartData sample_runtime sample_klines TimeFrame_H4) ! 0) = Fin 2650"
proof -
  have h3: "0 < length (fst (fetchChartData sample_runtime sample_klines TimeFrame_H4))"
    by (simp add: sample_chart_H4)
  have h4: "find (\<lambda>g. idx g 0 =
              timestamp (fst (fetchChartData sample_runtime sample_klines TimeFrame_H4) ! 0))
            (rev [flat_candle t0 ''0'']) = Some (flat_candle t0 ''0'')"
    by (simp add: sample_chart_H4 timestamp_chart_point flat_candle_def idx_def)
  have h5: "parseFloat sample_runtime (idx (flat_candle t0 ''0'') 4) = Fin 0"
    by (simp add: sample_runtime_def sample_parseFloat_def flat_candle_def idx_def)
  from fetchChartData_falsy_gold [OF sample_chart_params(2) sample_chart_fetches(4) h3 h4
      disjI1 [OF h5]]
  have "xau (fst (fetchChartData sample_runtime sample_klines TimeFrame_H4) ! 0) = Fin 2650" .
  with sample_chart_fetches(4) h3 h4 h5 show ?thesis by simp
qed

section \<open>Properties of fetchAIAnalysis\<close>

lemma fetchAIAnalysis_cases:
  "fetchAIAnalysis h sdk marketData mode =
     (case process_env_API_KEY h of
        Inl e \<Rightarrow> (Fulfilled (Some retry_later_message), [])
      | Inr apiKey \<Rightarrow>
          (case newGoogleGenAI sdk apiKey of
             Inl e \<Rightarrow> (Fulfilled (Some retry_later_message), [])
           | Inr ai \<Rightarrow>
               (catch_block (generateContent sdk ai ''gemini-2.5-flash''
                               (build_prompt marketData mode)),
                [(''gemini-2.5-flash'', build_prompt marketData mode)])))"
  by (simp add: fetchAIAnalysis_def fetchAIAnalysis_try_def ask_model_def catch_block_def
      Let_def split: sum.splits)

lemma fetchAIAnalysis_merged_cases:
  "fetchAIAnalysis_merged h sdk marketData mode =
     (if window_process_env_API_KEY h = None \<or> window_process_env_API_KEY h = Some []
      then (Fulfilled (Some not_configured_message), [])
      else (case newGoogleGenAI sdk (window_process_env_API_KEY h) of
              Inl e \<Rightarrow> (Fulfilled (Some retry_later_message), [])
            | Inr ai \<Rightarrow>
                (catch_block (generateContent sdk ai ''gemini-2.5-flash''
                                (build_prompt marketData mode)),
                 [(''gemini-2.5-flash'', build_prompt marketData mode)])))"
  by (simp add: fetchAIAnalysis_merged_def fetchAIAnalysis_merged_try_def ask_model_def
      catch_block_def Let_def split: sum.splits)

lemma fetchAIAnalysis_merged_no_key:
  "window_process_env_API_KEY h = None \<or> window_process_env_API_KEY h = Some [] \<Longrightarrow>
   fetchAIAnalysis_merged h sdk marketData mode =
     (Fulfilled (Some not_configured_message), [])"
  by (simp add: fetchAIAnalysis_merged_cases)

lemma fetchAIAnalysis_copies_agree:
  "process_env_API_KEY h = Inr (Some key) \<Longrightarrow> key \<noteq> [] \<Longrightarrow>
   fetchAIAnalysis h sdk marketData mode = fetchAIAnalysis_merged h sdk marketData mode"
  by (cases h)
     (auto simp: fetchAIAnalysis_cases fetchAIAnalysis_merged_cases process_env_API_KEY_def
        window_process_env_API_KEY_def)

lemma messages_differ:
  "retry_later_message \<noteq> not_configured_message"
  by (simp add: retry_later_message_def not_configured_message_def)

text \<open>
  C5, as the code has it. When the call to the service is rejected or throws, each copy
  of fetchAIAnalysis is fulfilled with the retry-later sentence; so it is when the
  constructor of the client throws and when reading the key throws. When the call
  resolves, the function is fulfilled with the response's text as it is, which is
  \<open>undefined\<close> for a response without text. Neither copy is ever rejected.
\<close>

theorem fetchAIAnalysis_failure_caught:
  "(process_env_API_KEY h = Inr k \<and> newGoogleGenAI sdk k = Inr ai \<and>
    generateContent sdk ai ''gemini-2.5-flash'' (build_prompt marketData mode) = Inl e \<longrightarrow>
      fst (fetchAIAnalysis h sdk marketData mode) = Fulfilled (Some retry_later_message)) \<and>
   (process_env_API_KEY h = Inr k \<and> newGoogleGenAI sdk k = Inl e \<longrightarrow>
      fst (fetchAIAnalysis h sdk marketData mode) = Fulfilled (Some retry_later_message)) \<and>
   (process_env_API_KEY h = Inl e \<longrightarrow>
      fst (fetchAIAnalysis h sdk marketData mode) = Fulfilled (Some retry_later_message)) \<and>
   (window_process_env_API_KEY h = Some key \<and> key \<noteq> [] \<and>
    newGoogleGenAI sdk (Some key) = Inr ai \<and>
    generateContent sdk ai ''gemini-2.5-flash'' (build_prompt marketData mode) = Inl e \<longrightarrow>
      fst (fetchAIAnalysis_merged h sdk marketData mode) =
        Fulfilled (Some retry_later_message)) \<and>
   (window_process_env_API_KEY h = Some key \<and> key \<noteq> [] \<and>
    newGoogleGenAI sdk (Some key) = Inl e \<longrightarrow>
      fst (fetchAIAnalysis_merged h sdk marketData mode) =
        Fulfilled (Some retry_later_message)) \<and>
   (process_env_API_KEY h = Inr k \<and> newGoogleGenAI sdk k = Inr ai \<and>
    generateContent sdk ai ''gemini-2.5-flash'' (build_prompt marketData mode) = Inr t \<longrightarrow>
      fst (fetchAIAnalysis h sdk marketData mode) = Fulfilled t) \<and>
   (window_process_env_API_KEY h = Some key \<and> key \<noteq> [] \<and>
    newGoogleGenAI sdk (Some key) = Inr ai \<and>
    generateContent sdk ai ''gemini-2.5-flash'' (build_prompt marketData mode) = Inr t \<longrightarrow>
      fst (fetchAIAnalysis_merged h sdk marketData mode) = Fulfilled t) \<and>
   fst (fetchAIAnalysis h sdk marketData mode) \<noteq> Rejected e' \<and>
   fst (fetchAIAnalysis_merged h sdk marketData mode) \<noteq> Rejected e'"
  by (auto simp: fetchAIAnalysis_cases fetchAIAnalysis_merged_cases catch_block_def
      split: sum.splits)

text \<open>
  A configured key with a client whose call is rejected, and with a client whose call
  resolves without text.
\<close>

theorem fetchAIAnalysis_failure_caught_witness:
  "process_env_API_KEY (Env (Some ''key'')) = Inr (Some ''key'') \<and>
   newGoogleGenAI rejecting_sdk (Some ''key'') = Inr (Some ''key'') \<and>
   generateContent rejecting_sdk (Some ''key'') ''gemini-2.5-flash''
     (build_prompt sample_input ''btc'') = Inl (SdkError ''request failed'') \<and>
   fst (fetchAIAnalysis (Env (Some ''key'')) rejecting_sdk sample_input ''btc'') =
     Fulfilled (Some retry_later_message) \<and>
   window_process_env_API_KEY (Env (Some ''key'')) = Some ''key'' \<and>
   fst (fetchAIAnalysis_merged (Env (Some ''key'')) rejecting_sdk sample_input ''btc'') =
     Fulfilled (Some retry_later_message) \<and>
   newGoogleGenAI textless_sdk (Some ''key'') = Inr (Some ''key'') \<and>
   generateContent textless_sdk (Some ''key'') ''gemini-2.5-flash''
     (build_prompt sample_input ''btc'') = Inr None \<and>
   fst (fetchAIAnalysis (Env (Some ''key'')) textless_sdk sample_input ''btc'') =
     Fulfilled None \<and>
   fst (fetchAIAnalysis_merged (Env (Some ''key'')) textless_sdk sample_input ''btc'') =
     Fulfilled None"
proof -
  have h1: "process_env_API_KEY (Env (Some ''key'')) = Inr (Some ''key'')"
    by (simp add: process_env_API_KEY_def)
  have h2: "newGoogleGenAI rejecting_sdk (Some ''key'') = Inr (Some ''key'')"
    by (simp add: rejecting_sdk_def)
  have h3: "generateContent rejecting_sdk (Some ''key'') ''gemini-2.5-flash''
     (build_prompt sample_input ''btc'') = Inl (SdkError ''request failed'')"
    by (simp add: rejecting_sdk_def)
  have h4: "window_process_env_API_KEY (Env (Some ''key'')) = Some ''key''"
    by (simp add: window_process_env_API_KEY_def)
  have h5: "''key'' \<noteq> []" by simp
  have h6: "newGoogleGenAI textless_sdk (Some ''key'') = Inr (Some ''key'')"
    by (simp add: textless_sdk_def)
  have h7: "generateContent textless_sdk (Some ''key'') ''gemini-2.5-flash''
     (build_prompt sample_input ''btc'') = Inr None"
    by (simp add: textless_sdk_def)
  note t = fetchAIAnalysis_failure_caught [of "Env (Some ''key'')" "Some ''key''"
      rejecting_sdk "Some ''key''" sample_input "''btc''" "SdkError ''request failed''"
      "''key''"]
  note u = fetchAIAnalysis_failure_caught [of "Env (Some ''key'')" "Some ''key''"
      textless_sdk "Some ''key''" sample_input "''btc''" _ "''key''" None]
  from t h1 h2 h3
  have a: "fst (fetchAIAnalysis (Env (Some ''key'')) rejecting_sdk sample_input ''btc'') =
     Fulfilled (Some retry_later_message)"
    by blast
  from t h2 h3 h4 h5
  have b: "fst (fetchAIAnalysis_merged (Env (Some ''key'')) rejecting_sdk sample_input ''btc'') =
     Fulfilled (Some retry_later_message)"
    by blast
  from u h1 h6 h7
  have c: "fst (fetchAIAnalysis (Env (Some ''key'')) textless_sdk sample_input ''btc'') =
     Fulfilled None"
    by blast
  from u h4 h5 h6 h7
  have d: "fst (fetchAIAnalysis_merged (Env (Some ''key'')) textless_sdk sample_input ''btc'') =
     Fulfilled None"
    by blast
  from h1 h2 h3 h4 h6 h7 a b c d show ?thesis by simp
qed

text \<open>
  C5 as it is worded fails for a response that is malformed in that it has no text: the
  call resolves, nothing is thrown, and both copies return \<open>undefined\<close>, not the
  retry-later sentence.
\<close>

theorem fetchAIAnalysis_textless_response:
  "generateContent textless_sdk (Some ''key'') ''gemini-2.5-flash''
     (build_prompt sample_input ''btc'') = Inr None \<and>
   fst (fetchAIAnalysis (Env (Some ''key'')) textless_sdk sample_input ''btc'') = Fulfilled None \<and>
   fst (fetchAIAnalysis (Env (Some ''key'')) textless_sdk sample_input ''btc'') \<noteq>
     Fulfilled (Some retry_later_message) \<and>
   fst (fetchAIAnalysis_merged (Env (Some ''key'')) textless_sdk sample_input ''btc'') \<noteq>
     Fulfilled (Some retry_later_message)"
  by (simp add: fetchAIAnalysis_cases fetchAIAnalysis_merged_cases process_env_API_KEY_def
      window_process_env_API_KEY_def textless_sdk_def catch_block_def)

text \<open>
  C4, as the code has it. With no credential configured (the key is \<open>undefined\<close> or the
  empty string) a commentary request ends in a fixed not-configured message and issues
  no call to the service. In the single-file build fetchAIAnalysis itself returns the
  message, and the panel shows it. In the modular build the panel's handler shows its own
  not-configured sentence and does not call fetchAIAnalysis; that holds also when
  \<open>process\<close> was missing, because the entry point installs an empty key first.
\<close>

theorem commentary_not_configured:
  "(window_process_env_API_KEY h = None \<or> window_process_env_API_KEY h = Some [] \<longrightarrow>
      fetchAIAnalysis_merged h sdk marketData mode =
        (Fulfilled (Some not_configured_message), []) \<and>
      handleAnalyze_merged h sdk marketData mode st =
        ((Fulfilled (), st\<lparr>analysis := not_configured_message, isAnalyzing := False\<rparr>),
         [])) \<and>
   (process_env_API_KEY h = Inr k \<and> (k = None \<or> k = Some []) \<longrightarrow>
      handleAnalyze h sdk marketData mode st =
        ((Fulfilled (), st\<lparr>analysis := panel_not_configured_message\<rparr>), [])) \<and>
   (h \<noteq> NoEnv \<and>
    (window_process_env_API_KEY h = None \<or> window_process_env_API_KEY h = Some []) \<longrightarrow>
      handleAnalyze (index_shim h) sdk marketData mode st =
        ((Fulfilled (), st\<lparr>analysis := panel_not_configured_message\<rparr>), []))"
proof (intro conjI impI)
  assume a: "window_process_env_API_KEY h = None \<or> window_process_env_API_KEY h = Some []"
  then show m: "fetchAIAnalysis_merged h sdk marketData mode =
        (Fulfilled (Some not_configured_message), [])"
    by (rule fetchAIAnalysis_merged_no_key)
  show "handleAnalyze_merged h sdk marketData mode st =
        ((Fulfilled (), st\<lparr>analysis := not_configured_message, isAnalyzing := False\<rparr>), [])"
    by (simp add: handleAnalyze_merged_def m after_request_def result_or_default_def
        not_configured_message_def)
next
  assume "process_env_API_KEY h = Inr k \<and> (k = None \<or> k = Some [])"
  then show "handleAnalyze h sdk marketData mode st =
        ((Fulfilled (), st\<lparr>analysis := panel_not_configured_message\<rparr>), [])"
    by (auto simp: handleAnalyze_def)
next
  assume "h \<noteq> NoEnv \<and>
    (window_process_env_API_KEY h = None \<or> window_process_env_API_KEY h = Some [])"
  then show "handleAnalyze (index_shim h) sdk marketData mode st =
        ((Fulfilled (), st\<lparr>analysis := panel_not_configured_message\<rparr>), [])"
    by (cases h)
       (auto simp: handleAnalyze_def index_shim_def process_env_API_KEY_def
          window_process_env_API_KEY_def)
qed

text \<open>
  No key in the environment, and no \<open>process\<close> at all: each build's panel ends with
  its not-configured message and an empty list of requests.
\<close>

theorem commentary_not_configured_witness:
  "window_process_env_API_KEY (Env None) = None \<and>
   fetchAIAnalysis_merged (Env None) rejecting_sdk sample_input ''btc'' =
     (Fulfilled (Some not_configured_message), []) \<and>
   handleAnalyze_merged (Env None) rejecting_sdk sample_input ''btc'' idle_panel =
     ((Fulfilled (), \<lparr>analysis = not_configured_message, isAnalyzing = False\<rparr>), []) \<and>
   process_env_API_KEY (Env None) = Inr None \<and>
   handleAnalyze (Env None) rejecting_sdk sample_input ''btc'' idle_panel =
     ((Fulfilled (), \<lparr>analysis = panel_not_configured_message, isAnalyzing = False\<rparr>), []) \<and>
   window_process_env_API_KEY NoProcess = None \<and>
   handleAnalyze (index_shim NoProcess) rejecting_sdk sample_input ''btc'' idle_panel =
     ((Fulfilled (), \<lparr>analysis = panel_not_configured_message, isAnalyzing = False\<rparr>), [])"
proof -
  have h1: "window_process_env_API_KEY (Env None) = None"
    by (simp add: window_process_env_API_KEY_def)
  have h2: "process_env_API_KEY (Env None) = Inr None"
    by (simp add: process_env_API_KEY_def)
  have h3: "window_process_env_API_KEY NoProcess = None"
    by (simp add: window_process_env_API_KEY_def)
  have h4: "NoProcess \<noteq> NoEnv" by simp
  note t = commentary_not_configured [of "Env None" rejecting_sdk sample_input "''btc''"
      idle_panel None]
  note u = commentary_not_configured [of NoProcess rejecting_sdk sample_input "''btc''"
      idle_panel]
  from t h1 have a: "fetchAIAnalysis_merged (Env None) rejecting_sdk sample_input ''btc'' =
       (Fulfilled (Some not_configured_message), []) \<and>
     handleAnalyze_merged (Env None) rejecting_sdk sample_input ''btc'' idle_panel =
       ((Fulfilled (), idle_panel\<lparr>analysis := not_configured_message, isAnalyzing := False\<rparr>),
        [])"
    by blast
  from t h2 have b: "handleAnalyze (Env None) rejecting_sdk sample_input ''btc'' idle_panel =
     ((Fulfilled (), idle_panel\<lparr>analysis := panel_not_configured_message\<rparr>), [])"
    by blast
  from u h3 h4 have c:
    "handleAnalyze (index_shim NoProcess) rejecting_sdk sample_input ''btc'' idle_panel =
     ((Fulfilled (), idle_panel\<lparr>analysis := panel_not_configured_message\<rparr>), [])"
    by blast
  from h1 h2 h3 a b c show ?thesis by (simp add: idle_panel_def)
qed

text \<open>
  C4 as it is worded fails for the fetchAIAnalysis of services/marketService.ts, which
  has no check of its own. Called with no key (\<open>undefined\<close> or the empty string), it
  hands the key to the client: when the constructor refuses it the function returns the
  retry-later sentence, and when the constructor accepts it the request is issued. It
  does not return a not-configured message.
\<close>

theorem fetchAIAnalysis_no_key_unguarded:
  "fetchAIAnalysis (Env None) strict_sdk sample_input ''btc'' =
     (Fulfilled (Some retry_later_message), []) \<and>
   fetchAIAnalysis (Env (Some [])) strict_sdk sample_input ''btc'' =
     (Fulfilled (Some retry_later_message), []) \<and>
   fetchAIAnalysis (Env None) rejecting_sdk sample_input ''btc'' =
     (Fulfilled (Some retry_later_message),
      [(''gemini-2.5-flash'', build_prompt sample_input ''btc'')]) \<and>
   fst (fetchAIAnalysis (Env None) strict_sdk sample_input ''btc'') \<noteq>
     Fulfilled (Some not_configured_message) \<and>
   snd (fetchAIAnalysis (Env None) rejecting_sdk sample_input ''btc'') \<noteq> []"
  by (simp add: fetchAIAnalysis_cases process_env_API_KEY_def strict_sdk_def
      rejecting_sdk_def catch_block_def retry_later_message_def not_configured_message_def)

end
